theory Spec2Isabelle
  imports Main
begin

section \<open>Python values\<close>

text \<open>
  A Python \<open>str\<close> is a sequence of Unicode code points; it is modelled as a list of
  naturals, so that \<open>str.strip\<close> sees the code points Python sees. ASCII literals of
  the source are written with \<open>ustr\<close>.
\<close>

type_synonym pystr = "nat list"

definition ustr :: "string \<Rightarrow> pystr" where
  "ustr s = map of_char s"

text \<open>The code points for which \<open>str.isspace\<close> holds; \<open>str.strip()\<close> removes these.\<close>

definition is_whitespace :: "nat \<Rightarrow> bool" where
  "is_whitespace c \<longleftrightarrow>
     (9 \<le> c \<and> c \<le> 13) \<or> (28 \<le> c \<and> c \<le> 32) \<or> c = 133 \<or> c = 160 \<or> c = 5760 \<or>
     (8192 \<le> c \<and> c \<le> 8202) \<or> c = 8232 \<or> c = 8233 \<or> c = 8239 \<or> c = 8287 \<or> c = 12288"

definition py_strip :: "pystr \<Rightarrow> pystr" where
  "py_strip s = rev (dropWhile is_whitespace (rev (dropWhile is_whitespace s)))"

text \<open>\<open>s.split(sep)\<close> for a one-character separator: never an empty list.\<close>

fun py_split_acc :: "nat \<Rightarrow> pystr \<Rightarrow> pystr \<Rightarrow> pystr list" where
  "py_split_acc sep acc [] = [rev acc]"
| "py_split_acc sep acc (c # cs) =
     (if c = sep then rev acc # py_split_acc sep [] cs else py_split_acc sep (c # acc) cs)"

definition py_split :: "pystr \<Rightarrow> nat \<Rightarrow> pystr list" where
  "py_split s sep = py_split_acc sep [] s"

text \<open>\<open>sep.join(xs)\<close>.\<close>

fun py_join :: "pystr \<Rightarrow> pystr list \<Rightarrow> pystr" where
  "py_join sep [] = []"
| "py_join sep [x] = x"
| "py_join sep (x # y # ys) = x @ sep @ py_join sep (y # ys)"

definition newline :: nat where
  "newline = 10"

text \<open>
  A \<open>float\<close> is a double: a finite one is the dyadic rational \<open>m * 2 ^ e\<close>. The sign of
  zero is not kept; no function here reads it.
\<close>

datatype pyfloat = Finite int int | PosInf | NegInf | NaN

text \<open>The values \<open>json.loads\<close> builds and the values a configuration map holds.\<close>

datatype pyval =
    PNone
  | PBool bool
  | PInt int
  | PFloat pyfloat
  | PStr pystr
  | PList "pyval list"
  | PDict "(pystr \<times> pyval) list"

text \<open>Python's truth value of an object, as \<open>if not query\<close> tests it.\<close>

fun truthy :: "pyval \<Rightarrow> bool" where
  "truthy PNone = False"
| "truthy (PBool b) = b"
| "truthy (PInt i) = (i \<noteq> 0)"
| "truthy (PFloat (Finite m e)) = (m \<noteq> 0)"
| "truthy (PFloat _) = True"
| "truthy (PStr s) = (s \<noteq> [])"
| "truthy (PList xs) = (xs \<noteq> [])"
| "truthy (PDict kvs) = (kvs \<noteq> [])"

text \<open>How an f-string renders an optional string: \<open>None\<close> prints as the word None.\<close>

fun fmt_optional :: "pystr option \<Rightarrow> pystr" where
  "fmt_optional None = ustr ''None''"
| "fmt_optional (Some s) = s"

datatype error =
    TypeError
  | IndexError
  | ValidationError
  | GraphRecursionError

section \<open>Research state\<close>

text \<open>
  Modelled from the spec: \<open>state.py\<close> (the \<open>SummaryState\<close> record and the merge of a
  node's returned fields into it) is not among the sources. Section 3 of the
  specification gives the fields and their initial values, and the merge contract:
  sequence fields are appended to, scalar fields are replaced.
\<close>

record SummaryState =
  research_topic :: pystr
  search_query :: pyval
  research_loop_count :: int
  web_research_results :: "pystr list"
  sources_gathered :: "pystr list"
  running_summary :: "pystr option"

definition fresh_state :: "pystr \<Rightarrow> SummaryState" where
  "fresh_state topic =
     \<lparr>research_topic = topic, search_query = PNone, research_loop_count = 0,
      web_research_results = [], sources_gathered = [], running_summary = None\<rparr>"

text \<open>The dictionary a node returns: a field is \<open>None\<close> when the key is not in it.\<close>

record StateUpdate =
  upd_search_query :: "pyval option"
  upd_research_loop_count :: "int option"
  upd_web_research_results :: "pystr list option"
  upd_sources_gathered :: "pystr list option"
  upd_running_summary :: "pystr option"

definition no_update :: StateUpdate where
  "no_update =
     \<lparr>upd_search_query = None, upd_research_loop_count = None,
      upd_web_research_results = None, upd_sources_gathered = None,
      upd_running_summary = None\<rparr>"

definition merge :: "SummaryState \<Rightarrow> StateUpdate \<Rightarrow> SummaryState" where
  "merge s u =
     s\<lparr>search_query := (case upd_search_query u of None \<Rightarrow> search_query s | Some q \<Rightarrow> q),
       research_loop_count :=
         (case upd_research_loop_count u of None \<Rightarrow> research_loop_count s | Some n \<Rightarrow> n),
       web_research_results :=
         (case upd_web_research_results u of None \<Rightarrow> web_research_results s
          | Some xs \<Rightarrow> web_research_results s @ xs),
       sources_gathered :=
         (case upd_sources_gathered u of None \<Rightarrow> sources_gathered s
          | Some xs \<Rightarrow> sources_gathered s @ xs),
       running_summary :=
         (case upd_running_summary u of None \<Rightarrow> running_summary s | Some t \<Rightarrow> Some t)\<rparr>"

section \<open>Configuration of the Groq-style variant\<close>

text \<open>The fields of \<open>claude_deep_researcher/configuration.py\<close>, resolved.\<close>

record Configuration =
  max_web_research_loops :: int
  groq_model :: pystr
  groq_api_key :: "pystr option"
  search_api :: pystr
  fetch_full_page :: bool
  temperature :: pyfloat
  strip_thinking_tokens :: bool

section \<open>What the nodes call\<close>

text \<open>
  A chat completion request, as \<open>client.chat.completions.create\<close> receives it:
  the messages are (role, content) pairs, \<open>json_object\<close> says whether
  \<open>response_format={"type": "json_object"}\<close> was passed.
\<close>

record chat_request =
  req_model :: pystr
  req_temperature :: pyfloat
  req_messages :: "(pystr \<times> pystr) list"
  req_json_object :: bool

text \<open>
  Everything a node reaches outside \<open>graph.py\<close>, taken as parameters: the chat
  completion (its reply text is \<open>result.choices[0].message.content\<close>), the standard
  library's \<open>json.loads\<close> (\<open>None\<close> when it raises \<open>JSONDecodeError\<close>), the helpers of
  \<open>utils.py\<close> and the templates of \<open>prompts.py\<close>, which are not among the sources.
  \<open>'r\<close> is the type of a search result list.
\<close>

record 'r externals =
  chat :: "chat_request \<Rightarrow> pystr"
  json_loads :: "pystr \<Rightarrow> pyval option"
  tavily_search :: "pyval \<Rightarrow> bool \<Rightarrow> int \<Rightarrow> 'r"
  deduplicate_and_format_sources :: "'r \<Rightarrow> int \<Rightarrow> bool \<Rightarrow> pystr"
  format_sources :: "'r \<Rightarrow> pystr"
  strip_thinking_tokens_fn :: "pystr \<Rightarrow> pystr"
  get_current_date :: pystr
  query_writer_instructions :: "pystr \<Rightarrow> pystr \<Rightarrow> pystr"
  summarizer_instructions :: pystr
  reflection_instructions :: "pystr \<Rightarrow> pystr"

section \<open>Nodes of the workflow\<close>

text \<open>
  Every node of \<open>graph.py\<close> first resolves its configuration with
  \<open>Configuration.from_runnable_config(config)\<close>. Environment and overrides do not change
  during a run, so the nodes here take the resolved \<open>Configuration\<close>; resolution itself
  is modelled below. \<open>generate_query_content\<close> is the text of the model's reply to the
  query-writer request.
\<close>

definition generate_query_content :: "'r externals \<Rightarrow> Configuration \<Rightarrow> SummaryState \<Rightarrow> pystr" where
  "generate_query_content ext cfg state =
     chat ext
       \<lparr>req_model = groq_model cfg, req_temperature = temperature cfg,
        req_messages =
          [(ustr ''system'',
            query_writer_instructions ext (get_current_date ext) (research_topic state)),
           (ustr ''user'', ustr ''Generate a query for web search:'')],
        req_json_object = True\<rparr>"

text \<open>
  The \<open>except (json.JSONDecodeError, KeyError)\<close> branch of \<open>generate_query\<close>.
\<close>

definition generate_query_fallback :: "'r externals \<Rightarrow> Configuration \<Rightarrow> pystr \<Rightarrow> StateUpdate" where
  "generate_query_fallback ext cfg content =
     no_update\<lparr>upd_search_query :=
       Some (PStr (if strip_thinking_tokens cfg then strip_thinking_tokens_fn ext content
                   else content))\<rparr>"

text \<open>
  \<open>query['query']\<close> raises \<open>KeyError\<close> on a dict without the key, and \<open>TypeError\<close> on
  every other value \<open>json.loads\<close> can return (a list, a string, a number, a boolean,
  \<open>None\<close>); only the first is caught.
\<close>

definition generate_query :: "'r externals \<Rightarrow> Configuration \<Rightarrow> SummaryState \<Rightarrow> error + StateUpdate" where
  "generate_query ext cfg state =
     (let content = generate_query_content ext cfg state in
      case json_loads ext content of
        None \<Rightarrow> Inr (generate_query_fallback ext cfg content)
      | Some (PDict kvs) \<Rightarrow>
          (case map_of kvs (ustr ''query'') of
             None \<Rightarrow> Inr (generate_query_fallback ext cfg content)
           | Some v \<Rightarrow> Inr (no_update\<lparr>upd_search_query := Some v\<rparr>))
      | Some _ \<Rightarrow> Inl TypeError)"

definition web_research :: "'r externals \<Rightarrow> Configuration \<Rightarrow> SummaryState \<Rightarrow> StateUpdate" where
  "web_research ext cfg state =
     (let search_results = tavily_search ext (search_query state) (fetch_full_page cfg) 3;
          search_str =
            deduplicate_and_format_sources ext search_results 1000 (fetch_full_page cfg)
      in no_update
           \<lparr>upd_sources_gathered := Some [format_sources ext search_results],
            upd_research_loop_count := Some (research_loop_count state + 1),
            upd_web_research_results := Some [search_str]\<rparr>)"

definition summarize_message :: "SummaryState \<Rightarrow> pystr \<Rightarrow> pystr" where
  "summarize_message state most_recent_web_research =
     (case running_summary state of
        Some existing_summary \<Rightarrow>
          if existing_summary \<noteq> [] then
            ustr ''<Existing Summary> \<newline> '' @ existing_summary
            @ ustr '' \<newline> <Existing Summary>\<newline>\<newline>''
            @ ustr ''<New Context> \<newline> '' @ most_recent_web_research
            @ ustr '' \<newline> <New Context>''
            @ ustr ''Update the Existing Summary with the New Context on this topic: \<newline> <User Input> \<newline> ''
            @ research_topic state @ ustr '' \<newline> <User Input>\<newline>\<newline>''
          else
            ustr ''<Context> \<newline> '' @ most_recent_web_research @ ustr '' \<newline> <Context>''
            @ ustr ''Create a Summary using the Context on this topic: \<newline> <User Input> \<newline> ''
            @ research_topic state @ ustr '' \<newline> <User Input>\<newline>\<newline>''
      | None \<Rightarrow>
          ustr ''<Context> \<newline> '' @ most_recent_web_research @ ustr '' \<newline> <Context>''
          @ ustr ''Create a Summary using the Context on this topic: \<newline> <User Input> \<newline> ''
          @ research_topic state @ ustr '' \<newline> <User Input>\<newline>\<newline>'')"

text \<open>\<open>state.web_research_results[-1]\<close> raises \<open>IndexError\<close> on an empty list.\<close>

definition summarize_sources :: "'r externals \<Rightarrow> Configuration \<Rightarrow> SummaryState \<Rightarrow> error + StateUpdate" where
  "summarize_sources ext cfg state =
     (if web_research_results state = [] then Inl IndexError
      else
        let most_recent_web_research = last (web_research_results state);
            content =
              chat ext
                \<lparr>req_model = groq_model cfg, req_temperature = temperature cfg,
                 req_messages =
                   [(ustr ''system'', summarizer_instructions ext),
                    (ustr ''user'', summarize_message state most_recent_web_research)],
                 req_json_object = False\<rparr>
        in Inr (no_update\<lparr>upd_running_summary :=
                  Some (if strip_thinking_tokens cfg then strip_thinking_tokens_fn ext content
                        else content)\<rparr>))"

definition reflect_on_summary_content :: "'r externals \<Rightarrow> Configuration \<Rightarrow> SummaryState \<Rightarrow> pystr" where
  "reflect_on_summary_content ext cfg state =
     chat ext
       \<lparr>req_model = groq_model cfg, req_temperature = temperature cfg,
        req_messages =
          [(ustr ''system'', reflection_instructions ext (research_topic state)),
           (ustr ''user'',
            ustr ''Reflect on our existing knowledge: \<newline> === \<newline> ''
            @ fmt_optional (running_summary state)
            @ ustr '', \<newline> === \<newline> And now identify a knowledge gap and generate a follow-up web search query:'')],
        req_json_object = True\<rparr>"

definition follow_up_fallback :: "SummaryState \<Rightarrow> StateUpdate" where
  "follow_up_fallback state =
     no_update\<lparr>upd_search_query :=
       Some (PStr (ustr ''Tell me more about '' @ research_topic state))\<rparr>"

text \<open>
  \<open>reflection_content.get('follow_up_query')\<close> is \<open>None\<close> on a dict without the key and
  raises \<open>AttributeError\<close> on every value that is not a dict; that error is caught.
\<close>

definition reflect_on_summary :: "'r externals \<Rightarrow> Configuration \<Rightarrow> SummaryState \<Rightarrow> StateUpdate" where
  "reflect_on_summary ext cfg state =
     (let content = reflect_on_summary_content ext cfg state in
      case json_loads ext content of
        None \<Rightarrow> follow_up_fallback state
      | Some (PDict kvs) \<Rightarrow>
          (let query = (case map_of kvs (ustr ''follow_up_query'') of None \<Rightarrow> PNone | Some v \<Rightarrow> v)
           in if \<not> truthy query then follow_up_fallback state
              else no_update\<lparr>upd_search_query := Some query\<rparr>)
      | Some _ \<Rightarrow> follow_up_fallback state)"

text \<open>
  The loop of \<open>finalize_summary\<close> over the lines of one source and over the sources,
  carrying \<open>seen_sources\<close> and \<open>unique_sources\<close>.
\<close>

fun finalize_lines :: "pystr set \<times> pystr list \<Rightarrow> pystr list \<Rightarrow> pystr set \<times> pystr list" where
  "finalize_lines (seen_sources, unique_sources) [] = (seen_sources, unique_sources)"
| "finalize_lines (seen_sources, unique_sources) (line # rest) =
     (if py_strip line \<noteq> [] \<and> line \<notin> seen_sources
      then finalize_lines (insert line seen_sources, unique_sources @ [line]) rest
      else finalize_lines (seen_sources, unique_sources) rest)"

fun finalize_sources :: "pystr set \<times> pystr list \<Rightarrow> pystr list \<Rightarrow> pystr set \<times> pystr list" where
  "finalize_sources acc [] = acc"
| "finalize_sources acc (source # rest) =
     finalize_sources (finalize_lines acc (py_split source newline)) rest"

definition finalize_summary :: "SummaryState \<Rightarrow> StateUpdate" where
  "finalize_summary state =
     (let unique_sources = snd (finalize_sources ({}, []) (sources_gathered state));
          all_sources = py_join (ustr ''\<newline>'') unique_sources
      in no_update\<lparr>upd_running_summary :=
           Some (ustr ''## Summary\<newline>'' @ fmt_optional (running_summary state)
                 @ ustr ''\<newline>\<newline> ### Sources:\<newline>'' @ all_sources)\<rparr>)"

section \<open>The graph\<close>

datatype node =
    N_generate_query
  | N_web_research
  | N_summarize_sources
  | N_reflect_on_summary
  | N_finalize_summary
  | N_END

definition route_research :: "Configuration \<Rightarrow> SummaryState \<Rightarrow> node" where
  "route_research cfg state =
     (if research_loop_count state \<le> max_web_research_loops cfg then N_web_research
      else N_finalize_summary)"

text \<open>The edges the builder adds; the state is the one after the node's update.\<close>

fun next_node :: "Configuration \<Rightarrow> node \<Rightarrow> SummaryState \<Rightarrow> node" where
  "next_node cfg N_generate_query s = N_web_research"
| "next_node cfg N_web_research s = N_summarize_sources"
| "next_node cfg N_summarize_sources s = N_reflect_on_summary"
| "next_node cfg N_reflect_on_summary s = route_research cfg s"
| "next_node cfg N_finalize_summary s = N_END"
| "next_node cfg N_END s = N_END"

fun run_node :: "'r externals \<Rightarrow> Configuration \<Rightarrow> node \<Rightarrow> SummaryState \<Rightarrow> error + StateUpdate" where
  "run_node ext cfg N_generate_query s = generate_query ext cfg s"
| "run_node ext cfg N_web_research s = Inr (web_research ext cfg s)"
| "run_node ext cfg N_summarize_sources s = summarize_sources ext cfg s"
| "run_node ext cfg N_reflect_on_summary s = Inr (reflect_on_summary ext cfg s)"
| "run_node ext cfg N_finalize_summary s = Inr (finalize_summary s)"
| "run_node ext cfg N_END s = Inr no_update"

text \<open>One step of the engine: run the node, merge its update, follow the edge.\<close>

definition step :: "'r externals \<Rightarrow> Configuration \<Rightarrow> node \<times> SummaryState \<Rightarrow> error + node \<times> SummaryState" where
  "step ext cfg c =
     (case run_node ext cfg (fst c) (snd c) of
        Inl e \<Rightarrow> Inl e
      | Inr u \<Rightarrow> (let s' = merge (snd c) u in Inr (next_node cfg (fst c) s', s')))"

text \<open>
  The engine's run from a node: \<open>W k\<close> is what the outside world answers at step \<open>k\<close>,
  \<open>fuel\<close> the number of steps the engine allows. The result is the list of the nodes
  run, each with the state after it, and the final state.
\<close>

fun invoke_from ::
  "(nat \<Rightarrow> 'r externals) \<Rightarrow> Configuration \<Rightarrow> nat \<Rightarrow> nat \<Rightarrow> node \<Rightarrow> SummaryState
   \<Rightarrow> error + (node \<times> SummaryState) list \<times> SummaryState" where
  "invoke_from W cfg 0 k n s = (if n = N_END then Inr ([], s) else Inl GraphRecursionError)"
| "invoke_from W cfg (Suc fuel) k n s =
     (if n = N_END then Inr ([], s)
      else case step (W k) cfg (n, s) of
        Inl e \<Rightarrow> Inl e
      | Inr c \<Rightarrow>
          (case invoke_from W cfg fuel (Suc k) (fst c) (snd c) of
             Inl e \<Rightarrow> Inl e
           | Inr r \<Rightarrow> Inr ((n, snd c) # fst r, snd r)))"

definition invoke :: "(nat \<Rightarrow> 'r externals) \<Rightarrow> Configuration \<Rightarrow> nat \<Rightarrow> pystr
   \<Rightarrow> error + (node \<times> SummaryState) list \<times> SummaryState" where
  "invoke W cfg fuel topic = invoke_from W cfg fuel 0 N_generate_query (fresh_state topic)"


text \<open>The nodes of a run with the loop counter each one left behind.\<close>

definition loop_counts :: "(node \<times> SummaryState) list \<Rightarrow> (node \<times> int) list" where
  "loop_counts tr = map (\<lambda>p. (fst p, research_loop_count (snd p))) tr"

text \<open>
  The configurations (next node, state) the engine can be in after \<open>k\<close> steps of a run
  on a fresh state, whatever the outside world answers.
\<close>

inductive reachable ::
  "(nat \<Rightarrow> 'r externals) \<Rightarrow> Configuration \<Rightarrow> pystr \<Rightarrow> nat \<Rightarrow> node \<times> SummaryState \<Rightarrow> bool"
  for W cfg topic where
    reachable_start: "reachable W cfg topic 0 (N_generate_query, fresh_state topic)"
  | reachable_step:
      "reachable W cfg topic k c \<Longrightarrow> step (W k) cfg c = Inr c' \<Longrightarrow>
       reachable W cfg topic (Suc k) c'"

section \<open>The report, as the specification words it\<close>

text \<open>
  The specification of \<open>finalize_summary\<close>: every citation block split into lines, the
  blank lines discarded, the rest deduplicated in first-seen order.
\<close>

definition source_lines :: "pystr list \<Rightarrow> pystr list" where
  "source_lines blocks = concat (map (\<lambda>source. py_split source newline) blocks)"

definition blank :: "pystr \<Rightarrow> bool" where
  "blank line \<longleftrightarrow> (\<forall>c \<in> set line. is_whitespace c)"

fun first_seen :: "'a list \<Rightarrow> 'a list" where
  "first_seen [] = []"
| "first_seen (x # xs) = x # filter (\<lambda>y. y \<noteq> x) (first_seen xs)"

section \<open>Configuration resolution\<close>

text \<open>The field defaults of the \<open>Configuration\<close> class.\<close>

definition default_configuration :: Configuration where
  "default_configuration =
     \<lparr>max_web_research_loops = 3, groq_model = ustr ''llama-3.3-70b-versatile'',
      groq_api_key = None, search_api = ustr ''tavily'', fetch_full_page = True,
      temperature = Finite 0 0, strip_thinking_tokens = True\<rparr>"

text \<open>
  The process environment (\<open>os.environ\<close>) and the explicit overrides
  (\<open>config["configurable"]\<close>). Of a \<open>RunnableConfig\<close> only the key \<open>configurable\<close> is
  read; \<open>None\<close> says the key is not there.
\<close>

type_synonym environ = "pystr \<rightharpoonup> pystr"

type_synonym overrides = "pystr \<rightharpoonup> pyval"

record RunnableConfig =
  configurable :: "overrides option"

text \<open>\<open>str.upper\<close> on ASCII text; it is applied to the field names only.\<close>

definition py_upper :: "pystr \<Rightarrow> pystr" where
  "py_upper s = map (\<lambda>c. if 97 \<le> c \<and> c \<le> 122 then c - 32 else c) s"

text \<open>\<open>config["configurable"] if config and "configurable" in config else {}\<close>.\<close>

definition configurable_of :: "RunnableConfig option \<Rightarrow> overrides" where
  "configurable_of config =
     (case config of
        None \<Rightarrow> Map.empty
      | Some c \<Rightarrow> (case configurable c of None \<Rightarrow> Map.empty | Some m \<Rightarrow> m))"

text \<open>
  The dict comprehension: for every field name,
  \<open>os.environ.get(name.upper(), configurable.get(name))\<close>; a missing value is \<open>PNone\<close>.
\<close>

definition raw_values :: "pystr list \<Rightarrow> environ \<Rightarrow> overrides \<Rightarrow> (pystr \<rightharpoonup> pyval)" where
  "raw_values names env conf name =
     (if name \<in> set names then
        Some (case env (py_upper name) of
                Some v \<Rightarrow> PStr v
              | None \<Rightarrow> (case conf name of Some v \<Rightarrow> v | None \<Rightarrow> PNone))
      else None)"

text \<open>
  \<open>if raw_values.get("openai_api_key") is None:
  raw_values["openai_api_key"] = os.environ.get("OPENAI_API_KEY")\<close>.
\<close>

definition openai_api_key_fallback :: "environ \<Rightarrow> (pystr \<rightharpoonup> pyval) \<Rightarrow> (pystr \<rightharpoonup> pyval)" where
  "openai_api_key_fallback env raw =
     (if raw (ustr ''openai_api_key'') = None \<or> raw (ustr ''openai_api_key'') = Some PNone
      then raw(ustr ''openai_api_key'' \<mapsto>
             (case env (ustr ''OPENAI_API_KEY'') of None \<Rightarrow> PNone | Some v \<Rightarrow> PStr v))
      else raw)"

text \<open>\<open>{k: v for k, v in raw_values.items() if v is not None}\<close>.\<close>

definition filter_none :: "(pystr \<rightharpoonup> pyval) \<Rightarrow> (pystr \<rightharpoonup> pyval)" where
  "filter_none raw name = (case raw name of Some PNone \<Rightarrow> None | other \<Rightarrow> other)"

text \<open>The keyword arguments \<open>from_runnable_config\<close> passes to the class.\<close>

definition resolve_values :: "pystr list \<Rightarrow> environ \<Rightarrow> RunnableConfig option \<Rightarrow> (pystr \<rightharpoonup> pyval)" where
  "resolve_values names env config =
     filter_none (openai_api_key_fallback env (raw_values names env (configurable_of config)))"

text \<open>
  The validation library behind \<open>BaseModel\<close>, taken as a parameter: how it turns a given
  value into an \<open>int\<close>, a \<open>str\<close>, a \<open>bool\<close> or a \<open>float\<close> field, \<open>None\<close> when it rejects
  the value.
\<close>

record pydantic =
  validate_int :: "pyval \<Rightarrow> int option"
  validate_str :: "pyval \<Rightarrow> pystr option"
  validate_bool :: "pyval \<Rightarrow> bool option"
  validate_float :: "pyval \<Rightarrow> pyfloat option"

text \<open>A field of the constructed object: the validated argument, or the default.\<close>

definition field_value :: "(pyval \<Rightarrow> 'a option) \<Rightarrow> 'a \<Rightarrow> (pystr \<rightharpoonup> pyval) \<Rightarrow> pystr \<Rightarrow> 'a option" where
  "field_value validate default_value values name =
     (case values name of None \<Rightarrow> Some default_value | Some v \<Rightarrow> validate v)"

text \<open>\<open>Literal["tavily"]\<close> accepts that string only.\<close>

definition validate_tavily :: "pyval \<Rightarrow> pystr option" where
  "validate_tavily v = (if v = PStr (ustr ''tavily'') then Some (ustr ''tavily'') else None)"

subsection \<open>The Groq-style class\<close>

definition model_fields :: "pystr list" where
  "model_fields =
     [ustr ''max_web_research_loops'', ustr ''groq_model'', ustr ''groq_api_key'',
      ustr ''search_api'', ustr ''fetch_full_page'', ustr ''temperature'',
      ustr ''strip_thinking_tokens'']"

text \<open>
  \<open>cls(**values)\<close>: every declared field is validated or takes its default; a keyword
  that names no field is ignored, as the class sets no other policy.
\<close>

definition Configuration_init :: "pydantic \<Rightarrow> (pystr \<rightharpoonup> pyval) \<Rightarrow> error + Configuration" where
  "Configuration_init V values =
     (case (field_value (validate_int V) 3 values (ustr ''max_web_research_loops''),
            field_value (validate_str V) (ustr ''llama-3.3-70b-versatile'') values
              (ustr ''groq_model''),
            field_value (\<lambda>v. map_option Some (validate_str V v)) None values
              (ustr ''groq_api_key''),
            field_value validate_tavily (ustr ''tavily'') values (ustr ''search_api''),
            field_value (validate_bool V) True values (ustr ''fetch_full_page''),
            field_value (validate_float V) (Finite 0 0) values (ustr ''temperature''),
            field_value (validate_bool V) True values (ustr ''strip_thinking_tokens'')) of
        (Some loops, Some model, Some key, Some api, Some full, Some temp, Some strip) \<Rightarrow>
          Inr \<lparr>max_web_research_loops = loops, groq_model = model, groq_api_key = key,
               search_api = api, fetch_full_page = full, temperature = temp,
               strip_thinking_tokens = strip\<rparr>
      | _ \<Rightarrow> Inl ValidationError)"

definition from_runnable_config :: "pydantic \<Rightarrow> environ \<Rightarrow> RunnableConfig option \<Rightarrow> error + Configuration" where
  "from_runnable_config V env config =
     Configuration_init V (resolve_values model_fields env config)"

subsection \<open>The OpenAI-style class\<close>





section \<open>Entry point A\<close>

text \<open>
  The \<open>config\<close> dictionary of \<open>run_research\<close>; the temperature is the double written
  \<open>0.1\<close>.
\<close>

definition app_configurable :: overrides where
  "app_configurable =
     map_of
       [(ustr ''groq_model'', PStr (ustr ''llama-3.3-70b-versatile'')),
        (ustr ''temperature'', PFloat (Finite 3602879701896397 (- 55))),
        (ustr ''max_web_research_loops'', PInt 3),
        (ustr ''fetch_full_page'', PBool True),
        (ustr ''strip_thinking_tokens'', PBool True)]"

definition app_config :: RunnableConfig where
  "app_config = \<lparr>configurable = Some app_configurable\<rparr>"

text \<open>What \<open>run_research\<close> raises: the exception class and its message.\<close>

datatype failure = ValueError pystr | Exception pystr

text \<open>
  What \<open>graph.invoke\<close> does: it raises an exception (an instance of \<open>Exception\<close>, given
  by its \<open>str\<close>) or returns the output dictionary.
\<close>

datatype graph_result = Raised pystr | Returned "(pystr \<times> pyval) list"

text \<open>\<open>not os.getenv(name)\<close>: the variable is unset or empty.\<close>

definition env_missing :: "environ \<Rightarrow> pystr \<Rightarrow> bool" where
  "env_missing env name = (case env name of None \<Rightarrow> True | Some v \<Rightarrow> v = [])"

text \<open>
  \<open>run_research\<close>. \<open>load_dotenv\<close> is the environment file loader, giving the environment
  the checks read; \<open>graph_invoke\<close> is the compiled graph of the imported workflow module, which
  returns its result together with the search and model calls it made. The first
  component of the result lists the calls made during \<open>run_research\<close>.
\<close>

definition run_research ::
  "(environ \<Rightarrow> environ) \<Rightarrow> environ \<Rightarrow> (pystr \<Rightarrow> RunnableConfig \<Rightarrow> 'c list \<times> graph_result) \<Rightarrow> pystr
   \<Rightarrow> 'c list \<times> (failure + pyval)" where
  "run_research load_dotenv environ graph_invoke topic =
     (let env = load_dotenv environ in
      if env_missing env (ustr ''GROQ_API_KEY'') then
        ([], Inl (ValueError (ustr ''GROQ_API_KEY environment variable is not set. Please set your Groq API key.'')))
      else if env_missing env (ustr ''TAVILY_API_KEY'') then
        ([], Inl (ValueError (ustr ''TAVILY_API_KEY environment variable is not set. Please set your Tavily API key.'')))
      else
        (case graph_invoke topic app_config of
           (calls, Raised e) \<Rightarrow> (calls, Inl (Exception (ustr ''Research failed: '' @ e)))
         | (calls, Returned result) \<Rightarrow>
             (case map_of result (ustr ''running_summary'') of
                None \<Rightarrow>
                  (calls, Inl (Exception (ustr ''Research failed: '' @ ustr [CHR 0x27]
                     @ ustr ''running_summary'' @ ustr [CHR 0x27])))
              | Some summary \<Rightarrow> (calls, Inr summary))))"

section \<open>Fixed inputs for the examples\<close>

text \<open>
  An outside world for the examples: the model always answers \<open>reply\<close>, \<open>loads\<close>
  stands for \<open>json.loads\<close>, every search returns one result whose citation line is
  \<open>* A : url1\<close>. The examples use replies without thinking markers and without
  surrounding whitespace, on which thinking-token stripping changes nothing.
\<close>

definition stub_externals :: "pystr \<Rightarrow> (pystr \<Rightarrow> pyval option) \<Rightarrow> unit externals" where
  "stub_externals reply loads =
     \<lparr>chat = (\<lambda>_. reply), json_loads = loads,
      tavily_search = (\<lambda>_ _ _. ()),
      deduplicate_and_format_sources = (\<lambda>_ _ _. ustr ''Sources: A''),
      format_sources = (\<lambda>_. ustr ''* A : url1''),
      strip_thinking_tokens_fn = (\<lambda>t. t),
      get_current_date = ustr ''November 3, 2026'',
      query_writer_instructions = (\<lambda>d t. d @ t),
      summarizer_instructions = ustr ''Summarize.'',
      reflection_instructions = (\<lambda>t. t)\<rparr>"

text \<open>
  \<open>json.loads\<close> on the replies of the examples: the empty text and \<open>not json\<close> raise
  \<open>JSONDecodeError\<close>, \<open>[]\<close> is the empty list, \<open>{}\<close> the empty dict, and
  \<open>{"query": ""}\<close> a dict with one key.
\<close>

definition stub_loads :: "pystr \<Rightarrow> pyval option" where
  "stub_loads t =
     (if t = ustr ''[]'' then Some (PList [])
      else if t = ustr ''{}'' then Some (PDict [])
      else if t = ustr ''{\"query\": \"\"}'' then Some (PDict [(ustr ''query'', PStr [])])
      else None)"

text \<open>The state of the first example run after its first search.\<close>

definition example_state :: SummaryState where
  "example_state =
     \<lparr>research_topic = ustr ''Quantum Computing'', search_query = PStr (ustr ''not json''),
      research_loop_count = 1, web_research_results = [ustr ''Sources: A''],
      sources_gathered = [ustr ''* A : url1''], running_summary = None\<rparr>"

text \<open>A state with the two citation blocks of the specification's example.\<close>

definition report_example_state :: SummaryState where
  "report_example_state =
     \<lparr>research_topic = ustr ''Quantum Computing'', search_query = PStr (ustr ''qubits''),
      research_loop_count = 2,
      web_research_results = [ustr ''Sources: A B'', ustr ''Sources: B C''],
      sources_gathered =
        [ustr ''* A : url1\<newline>* B : url2'', ustr ''* B : url2\<newline>* C : url3''],
      running_summary = Some (ustr ''Findings'')\<rparr>"

text \<open>
  The validation library on the values of the examples: a value of the field's own type
  is taken as it is, and the text \<open>0.7\<close> is read as the double 0.7.
\<close>

definition stub_pydantic :: pydantic where
  "stub_pydantic =
     \<lparr>validate_int = (\<lambda>v. case v of PInt i \<Rightarrow> Some i | _ \<Rightarrow> None),
      validate_str = (\<lambda>v. case v of PStr s \<Rightarrow> Some s | _ \<Rightarrow> None),
      validate_bool = (\<lambda>v. case v of PBool b \<Rightarrow> Some b | _ \<Rightarrow> None),
      validate_float =
        (\<lambda>v. case v of
           PFloat f \<Rightarrow> Some f
         | PStr s \<Rightarrow> (if s = ustr ''0.7'' then Some (Finite 3152519739159347 (- 52)) else None)
         | _ \<Rightarrow> None)\<rparr>"



definition fallback_example_env :: environ where
  "fallback_example_env = [ustr ''OPENAI_API_KEY'' \<mapsto> ustr ''sk-example'']"

definition tavily_only_env :: environ where
  "tavily_only_env = [ustr ''TAVILY_API_KEY'' \<mapsto> ustr ''tvly-example'']"

definition groq_only_env :: environ where
  "groq_only_env = [ustr ''GROQ_API_KEY'' \<mapsto> ustr ''gsk-example'']"

section \<open>Properties of the graph\<close>

lemma merge_count_keep:
  "upd_research_loop_count u = None \<Longrightarrow> research_loop_count (merge s u) = research_loop_count s"
  by (simp add: merge_def)

lemma merge_sources_keep:
  "upd_sources_gathered u = None \<Longrightarrow> sources_gathered (merge s u) = sources_gathered s"
  by (simp add: merge_def)

lemma generate_query_frame:
  "generate_query ext cfg s = Inr u \<Longrightarrow>
     upd_research_loop_count u = None \<and> upd_web_research_results u = None \<and>
     upd_sources_gathered u = None"
  by (auto simp: generate_query_def generate_query_fallback_def no_update_def Let_def
      split: option.splits pyval.splits)

lemma summarize_sources_frame:
  "summarize_sources ext cfg s = Inr u \<Longrightarrow>
     upd_research_loop_count u = None \<and> upd_web_research_results u = None \<and>
     upd_sources_gathered u = None"
  by (auto simp: summarize_sources_def no_update_def Let_def split: if_splits)

lemma summarize_sources_ok:
  "web_research_results s \<noteq> [] \<Longrightarrow> \<exists>u. summarize_sources ext cfg s = Inr u"
  by (simp add: summarize_sources_def Let_def)

lemma reflect_on_summary_frame:
  "upd_research_loop_count (reflect_on_summary ext cfg s) = None \<and>
   upd_web_research_results (reflect_on_summary ext cfg s) = None \<and>
   upd_sources_gathered (reflect_on_summary ext cfg s) = None"
  by (auto simp: reflect_on_summary_def follow_up_fallback_def no_update_def Let_def
      split: option.splits pyval.splits)

lemma finalize_summary_frame:
  "upd_research_loop_count (finalize_summary s) = None \<and>
   upd_web_research_results (finalize_summary s) = None \<and>
   upd_sources_gathered (finalize_summary s) = None"
  by (simp add: finalize_summary_def no_update_def Let_def)

lemma web_research_effect:
  "research_loop_count (merge s (web_research ext cfg s)) = research_loop_count s + 1 \<and>
   sources_gathered (merge s (web_research ext cfg s)) =
     sources_gathered s
     @ [format_sources ext (tavily_search ext (search_query s) (fetch_full_page cfg) 3)] \<and>
   web_research_results (merge s (web_research ext cfg s)) \<noteq> []"
  by (simp add: web_research_def merge_def no_update_def Let_def)

subsection \<open>One pass of the loop\<close>

lemma loop_once:
  obtains s1 s2 s3 where
    "research_loop_count s1 = research_loop_count s + 1"
    "research_loop_count s2 = research_loop_count s + 1"
    "research_loop_count s3 = research_loop_count s + 1"
    "\<And>fuel. invoke_from W cfg (Suc (Suc (Suc fuel))) k N_web_research s =
       (case invoke_from W cfg fuel (Suc (Suc (Suc k))) (route_research cfg s3) s3 of
          Inl e \<Rightarrow> Inl e
        | Inr r \<Rightarrow> Inr ((N_web_research, s1) # (N_summarize_sources, s2)
                        # (N_reflect_on_summary, s3) # fst r, snd r))"
proof -
  define s1 where "s1 = merge s (web_research (W k) cfg s)"
  have c1: "research_loop_count s1 = research_loop_count s + 1"
    and r1: "web_research_results s1 \<noteq> []"
    using web_research_effect [of s "W k" cfg] by (simp_all add: s1_def)
  obtain u2 where u2: "summarize_sources (W (Suc k)) cfg s1 = Inr u2"
    using summarize_sources_ok [OF r1] by blast
  define s2 where "s2 = merge s1 u2"
  have c2: "research_loop_count s2 = research_loop_count s + 1"
    using summarize_sources_frame [OF u2] c1 by (simp add: s2_def merge_count_keep)
  define s3 where "s3 = merge s2 (reflect_on_summary (W (Suc (Suc k))) cfg s2)"
  have c3: "research_loop_count s3 = research_loop_count s + 1"
    using reflect_on_summary_frame [of "W (Suc (Suc k))" cfg s2] c2
    by (simp add: s3_def merge_count_keep)
  have st1: "step (W k) cfg (N_web_research, s) = Inr (N_summarize_sources, s1)"
    by (simp add: step_def s1_def Let_def)
  have st2: "step (W (Suc k)) cfg (N_summarize_sources, s1) = Inr (N_reflect_on_summary, s2)"
    by (simp add: step_def u2 s2_def Let_def)
  have st3: "step (W (Suc (Suc k))) cfg (N_reflect_on_summary, s2)
      = Inr (route_research cfg s3, s3)"
    by (simp add: step_def s3_def Let_def)
  have "invoke_from W cfg (Suc (Suc (Suc fuel))) k N_web_research s =
       (case invoke_from W cfg fuel (Suc (Suc (Suc k))) (route_research cfg s3) s3 of
          Inl e \<Rightarrow> Inl e
        | Inr r \<Rightarrow> Inr ((N_web_research, s1) # (N_summarize_sources, s2)
                        # (N_reflect_on_summary, s3) # fst r, snd r))" for fuel
    by (simp add: st1 st2 st3 split: sum.splits)
  with c1 c2 c3 show thesis using that by blast
qed

lemma loop_counted:
  assumes "research_loop_count s = c"
  obtains s1 s2 s3 where
    "research_loop_count s1 = c + 1"
    "research_loop_count s2 = c + 1"
    "research_loop_count s3 = c + 1"
    "\<And>fuel. invoke_from W cfg (Suc (Suc (Suc fuel))) k N_web_research s =
       (case invoke_from W cfg fuel (Suc (Suc (Suc k))) (route_research cfg s3) s3 of
          Inl e \<Rightarrow> Inl e
        | Inr r \<Rightarrow> Inr ((N_web_research, s1) # (N_summarize_sources, s2)
                        # (N_reflect_on_summary, s3) # fst r, snd r))"
proof (rule loop_once [of s W cfg k])
  fix s1 s2 s3
  assume "research_loop_count s1 = research_loop_count s + 1"
    "research_loop_count s2 = research_loop_count s + 1"
    "research_loop_count s3 = research_loop_count s + 1"
    "\<And>fuel. invoke_from W cfg (Suc (Suc (Suc fuel))) k N_web_research s =
       (case invoke_from W cfg fuel (Suc (Suc (Suc k))) (route_research cfg s3) s3 of
          Inl e \<Rightarrow> Inl e
        | Inr r \<Rightarrow> Inr ((N_web_research, s1) # (N_summarize_sources, s2)
                        # (N_reflect_on_summary, s3) # fst r, snd r))"
  then show thesis using that [of s1 s2 s3] assms by simp
qed

lemma fuel14:
  assumes "14 \<le> (fuel::nat)"
  shows "\<exists>f0. fuel =
    Suc (Suc (Suc (Suc (Suc (Suc (Suc (Suc (Suc (Suc (Suc (Suc (Suc (Suc f0)))))))))))))"
proof -
  obtain f0 where "fuel = 14 + f0"
    using assms le_Suc_ex by blast
  then have "fuel =
      Suc (Suc (Suc (Suc (Suc (Suc (Suc (Suc (Suc (Suc (Suc (Suc (Suc (Suc f0)))))))))))))"
    by (simp add: eval_nat_numeral)
  then show ?thesis by blast
qed

lemma invoke_from_END: "invoke_from W cfg fuel k N_END s = Inr ([], s)"
  by (cases fuel) simp_all

lemma finalize_step:
  "\<exists>fin. research_loop_count fin = research_loop_count s \<and>
     step ext cfg (N_finalize_summary, s) = Inr (N_END, fin)"
  using finalize_summary_frame [of s] by (simp add: step_def Let_def merge_count_keep)

lemma fresh_run:
  assumes m: "max_web_research_loops cfg = 3"
    and g: "generate_query (W 0) cfg (fresh_state topic) = Inr u"
    and f: "14 \<le> fuel"
  shows "\<exists>tr fin. invoke W cfg fuel topic = Inr (tr, fin) \<and>
     loop_counts tr =
       [(N_generate_query, 0),
        (N_web_research, 1), (N_summarize_sources, 1), (N_reflect_on_summary, 1),
        (N_web_research, 2), (N_summarize_sources, 2), (N_reflect_on_summary, 2),
        (N_web_research, 3), (N_summarize_sources, 3), (N_reflect_on_summary, 3),
        (N_web_research, 4), (N_summarize_sources, 4), (N_reflect_on_summary, 4),
        (N_finalize_summary, 4)]"
proof -
  let ?k1 = "Suc 0"
  let ?k2 = "Suc (Suc (Suc ?k1))"
  let ?k3 = "Suc (Suc (Suc ?k2))"
  let ?k4 = "Suc (Suc (Suc ?k3))"
  let ?k5 = "Suc (Suc (Suc ?k4))"
  obtain f0 where fuel: "fuel = Suc (Suc (Suc (Suc (Suc (Suc (Suc (Suc (Suc (Suc (Suc (Suc (Suc (Suc f0)))))))))))))"
    using fuel14 [OF f] by blast
  define s0 where "s0 = merge (fresh_state topic) u"
  have c0: "research_loop_count s0 = 0"
    using generate_query_frame [OF g] by (simp add: s0_def merge_count_keep fresh_state_def)
  have st0: "step (W 0) cfg (N_generate_query, fresh_state topic) = Inr (N_web_research, s0)"
    by (simp add: step_def g s0_def Let_def)
  obtain a1 a2 a3 where a: "research_loop_count a1 = 0 + 1" "research_loop_count a2 = 0 + 1"
      "research_loop_count a3 = 0 + 1"
    and ia: "\<And>fuel. invoke_from W cfg (Suc (Suc (Suc fuel))) ?k1 N_web_research s0 =
       (case invoke_from W cfg fuel ?k2 (route_research cfg a3) a3 of
          Inl e \<Rightarrow> Inl e
        | Inr r \<Rightarrow> Inr ((N_web_research, a1) # (N_summarize_sources, a2)
                        # (N_reflect_on_summary, a3) # fst r, snd r))"
    by (rule loop_counted [OF c0, of W cfg ?k1]) blast
  have a3: "research_loop_count a3 = 1" using a(3) by simp
  obtain b1 b2 b3 where b: "research_loop_count b1 = 1 + 1" "research_loop_count b2 = 1 + 1"
      "research_loop_count b3 = 1 + 1"
    and ib: "\<And>fuel. invoke_from W cfg (Suc (Suc (Suc fuel))) ?k2 N_web_research a3 =
       (case invoke_from W cfg fuel ?k3 (route_research cfg b3) b3 of
          Inl e \<Rightarrow> Inl e
        | Inr r \<Rightarrow> Inr ((N_web_research, b1) # (N_summarize_sources, b2)
                        # (N_reflect_on_summary, b3) # fst r, snd r))"
    by (rule loop_counted [OF a3, of W cfg ?k2]) blast
  have b3: "research_loop_count b3 = 2" using b(3) by simp
  obtain c1 c2 c3 where c: "research_loop_count c1 = 2 + 1" "research_loop_count c2 = 2 + 1"
      "research_loop_count c3 = 2 + 1"
    and ic: "\<And>fuel. invoke_from W cfg (Suc (Suc (Suc fuel))) ?k3 N_web_research b3 =
       (case invoke_from W cfg fuel ?k4 (route_research cfg c3) c3 of
          Inl e \<Rightarrow> Inl e
        | Inr r \<Rightarrow> Inr ((N_web_research, c1) # (N_summarize_sources, c2)
                        # (N_reflect_on_summary, c3) # fst r, snd r))"
    by (rule loop_counted [OF b3, of W cfg ?k3]) blast
  have c3: "research_loop_count c3 = 3" using c(3) by simp
  obtain d1 d2 d3 where d: "research_loop_count d1 = 3 + 1" "research_loop_count d2 = 3 + 1"
      "research_loop_count d3 = 3 + 1"
    and id: "\<And>fuel. invoke_from W cfg (Suc (Suc (Suc fuel))) ?k4 N_web_research c3 =
       (case invoke_from W cfg fuel ?k5 (route_research cfg d3) d3 of
          Inl e \<Rightarrow> Inl e
        | Inr r \<Rightarrow> Inr ((N_web_research, d1) # (N_summarize_sources, d2)
                        # (N_reflect_on_summary, d3) # fst r, snd r))"
    by (rule loop_counted [OF c3, of W cfg ?k4]) blast
  have d3: "research_loop_count d3 = 4" using d(3) by simp
  obtain fin where fin: "research_loop_count fin = 4"
    and sf: "step (W ?k5) cfg (N_finalize_summary, d3) = Inr (N_END, fin)"
    using finalize_step [of d3 "W ?k5" cfg] d3 by auto
  have ra: "route_research cfg a3 = N_web_research"
    and rb: "route_research cfg b3 = N_web_research"
    and rc: "route_research cfg c3 = N_web_research"
    and rd: "route_research cfg d3 = N_finalize_summary"
    by (simp_all add: route_research_def m a3 b3 c3 d3)
  have e5: "invoke_from W cfg (Suc f0) ?k5 N_finalize_summary d3 = Inr ([(N_finalize_summary, fin)], fin)"
    by (subst invoke_from.simps(2)) (simp add: sf invoke_from_END del: invoke_from.simps)
  have e4: "invoke_from W cfg (Suc (Suc (Suc (Suc f0)))) ?k4 N_web_research c3 =
      Inr ([(N_web_research, d1), (N_summarize_sources, d2),
            (N_reflect_on_summary, d3), (N_finalize_summary, fin)], fin)"
    by (simp only: id rd e5) simp
  have e3: "invoke_from W cfg (Suc (Suc (Suc (Suc (Suc (Suc (Suc f0))))))) ?k3 N_web_research b3 =
      Inr ([(N_web_research, c1), (N_summarize_sources, c2),
            (N_reflect_on_summary, c3), (N_web_research, d1), (N_summarize_sources, d2),
            (N_reflect_on_summary, d3), (N_finalize_summary, fin)], fin)"
    by (simp only: ic rc e4) simp
  have e2: "invoke_from W cfg (Suc (Suc (Suc (Suc (Suc (Suc (Suc (Suc (Suc (Suc f0)))))))))) ?k2 N_web_research a3 =
      Inr ([(N_web_research, b1), (N_summarize_sources, b2),
            (N_reflect_on_summary, b3), (N_web_research, c1), (N_summarize_sources, c2),
            (N_reflect_on_summary, c3), (N_web_research, d1), (N_summarize_sources, d2),
            (N_reflect_on_summary, d3), (N_finalize_summary, fin)], fin)"
    by (simp only: ib rb e3) simp
  have e1: "invoke_from W cfg (Suc (Suc (Suc (Suc (Suc (Suc (Suc (Suc (Suc (Suc (Suc (Suc (Suc f0))))))))))))) ?k1 N_web_research s0 =
      Inr ([(N_web_research, a1), (N_summarize_sources, a2),
            (N_reflect_on_summary, a3), (N_web_research, b1), (N_summarize_sources, b2),
            (N_reflect_on_summary, b3), (N_web_research, c1), (N_summarize_sources, c2),
            (N_reflect_on_summary, c3), (N_web_research, d1), (N_summarize_sources, d2),
            (N_reflect_on_summary, d3), (N_finalize_summary, fin)], fin)"
    by (simp only: ia ra e2) simp
  have "invoke W cfg fuel topic =
      Inr ([(N_generate_query, s0), (N_web_research, a1), (N_summarize_sources, a2),
            (N_reflect_on_summary, a3), (N_web_research, b1), (N_summarize_sources, b2),
            (N_reflect_on_summary, b3), (N_web_research, c1), (N_summarize_sources, c2),
            (N_reflect_on_summary, c3), (N_web_research, d1), (N_summarize_sources, d2),
            (N_reflect_on_summary, d3), (N_finalize_summary, fin)], fin)"
    unfolding invoke_def fuel
    by (subst invoke_from.simps(2)) (simp add: st0 e1 del: invoke_from.simps)
  then show ?thesis
    by (simp add: loop_counts_def c0 a b c d fin)
qed

text \<open>
  Claim C1. From a fresh state (\<open>research_loop_count = 0\<close>) and with
  \<open>max_web_research_loops = 3\<close>, the workflow runs \<open>web_research\<close> exactly four times,
  leaving the loop counts 1, 2, 3 and 4, before the conditional edge sends it to
  \<open>finalize_summary\<close>: whenever the first node does not raise and the engine allows
  the fourteen steps, the run ends normally with exactly this sequence of nodes. In
  general \<open>route_research\<close> returns \<open>web_research\<close> when
  \<open>research_loop_count <= max_web_research_loops\<close> and \<open>finalize_summary\<close> otherwise.
\<close>

theorem web_research_runs_four_times:
  assumes "max_web_research_loops cfg = 3"
    and "generate_query (W 0) cfg (fresh_state topic) = Inr u"
    and "14 \<le> fuel"
  shows "(\<exists>tr fin. invoke W cfg fuel topic = Inr (tr, fin) \<and>
      loop_counts tr =
        [(N_generate_query, 0),
         (N_web_research, 1), (N_summarize_sources, 1), (N_reflect_on_summary, 1),
         (N_web_research, 2), (N_summarize_sources, 2), (N_reflect_on_summary, 2),
         (N_web_research, 3), (N_summarize_sources, 3), (N_reflect_on_summary, 3),
         (N_web_research, 4), (N_summarize_sources, 4), (N_reflect_on_summary, 4),
         (N_finalize_summary, 4)]) \<and>
    (\<forall>c s. route_research c s =
       (if research_loop_count s \<le> max_web_research_loops c then N_web_research
        else N_finalize_summary))"
  using assms fresh_run [of cfg W topic u fuel] by (simp add: route_research_def)

theorem web_research_runs_four_times_witness:
  "max_web_research_loops default_configuration = 3 \<and>
   generate_query (stub_externals (ustr ''not json'') stub_loads) default_configuration
       (fresh_state (ustr ''Quantum Computing''))
     = Inr (no_update\<lparr>upd_search_query := Some (PStr (ustr ''not json''))\<rparr>) \<and>
   (\<exists>tr fin.
      invoke (\<lambda>k. stub_externals (ustr ''not json'') stub_loads) default_configuration 14
          (ustr ''Quantum Computing'') = Inr (tr, fin) \<and>
      map fst (filter (\<lambda>p. fst p = N_web_research) (loop_counts tr)) =
        [N_web_research, N_web_research, N_web_research, N_web_research] \<and>
      map snd (filter (\<lambda>p. fst p = N_web_research) (loop_counts tr)) = [1, 2, 3, 4])"
proof -
  have m: "max_web_research_loops default_configuration = 3"
    by (simp add: default_configuration_def)
  have g: "generate_query (stub_externals (ustr ''not json'') stub_loads) default_configuration
       (fresh_state (ustr ''Quantum Computing''))
     = Inr (no_update\<lparr>upd_search_query := Some (PStr (ustr ''not json''))\<rparr>)"
    by (simp add: generate_query_def generate_query_content_def generate_query_fallback_def
        stub_externals_def stub_loads_def default_configuration_def ustr_def Let_def)
  have f: "(14::nat) \<le> 14"
    by simp
  from web_research_runs_four_times
    [of default_configuration "\<lambda>k. stub_externals (ustr ''not json'') stub_loads"
      "ustr ''Quantum Computing''"
      "no_update\<lparr>upd_search_query := Some (PStr (ustr ''not json''))\<rparr>" 14, OF m g f]
  obtain tr fin where
    "invoke (\<lambda>k. stub_externals (ustr ''not json'') stub_loads) default_configuration 14
       (ustr ''Quantum Computing'') = Inr (tr, fin)"
    "loop_counts tr =
        [(N_generate_query, 0),
         (N_web_research, 1), (N_summarize_sources, 1), (N_reflect_on_summary, 1),
         (N_web_research, 2), (N_summarize_sources, 2), (N_reflect_on_summary, 2),
         (N_web_research, 3), (N_summarize_sources, 3), (N_reflect_on_summary, 3),
         (N_web_research, 4), (N_summarize_sources, 4), (N_reflect_on_summary, 4),
         (N_finalize_summary, 4)]"
    by blast
  then have "\<exists>tr fin.
      invoke (\<lambda>k. stub_externals (ustr ''not json'') stub_loads) default_configuration 14
          (ustr ''Quantum Computing'') = Inr (tr, fin) \<and>
      map fst (filter (\<lambda>p. fst p = N_web_research) (loop_counts tr)) =
        [N_web_research, N_web_research, N_web_research, N_web_research] \<and>
      map snd (filter (\<lambda>p. fst p = N_web_research) (loop_counts tr)) = [1, 2, 3, 4]"
    by simp
  with m g show ?thesis by blast
qed

subsection \<open>The length of \<open>sources_gathered\<close>\<close>

lemma other_nodes_frame:
  assumes "n \<noteq> N_web_research" and "run_node ext cfg n s = Inr u"
  shows "sources_gathered (merge s u) = sources_gathered s \<and>
         research_loop_count (merge s u) = research_loop_count s"
proof (cases n)
  case N_generate_query
  with assms(2) generate_query_frame [of ext cfg s u] show ?thesis
    by (simp add: merge_count_keep merge_sources_keep)
next
  case N_web_research
  with assms(1) show ?thesis by simp
next
  case N_summarize_sources
  with assms(2) summarize_sources_frame [of ext cfg s u] show ?thesis
    by (simp add: merge_count_keep merge_sources_keep)
next
  case N_reflect_on_summary
  with assms(2) reflect_on_summary_frame [of ext cfg s] show ?thesis
    by (auto simp: merge_count_keep merge_sources_keep)
next
  case N_finalize_summary
  with assms(2) finalize_summary_frame [of s] show ?thesis
    by (auto simp: merge_count_keep merge_sources_keep)
next
  case N_END
  with assms(2) show ?thesis
    by (auto simp: merge_def no_update_def)
qed

lemma step_keeps_invariant:
  assumes "step ext cfg c = Inr c'"
    and "int (length (sources_gathered (snd c))) = research_loop_count (snd c)"
  shows "int (length (sources_gathered (snd c'))) = research_loop_count (snd c')"
proof -
  obtain u where u: "run_node ext cfg (fst c) (snd c) = Inr u" and c': "snd c' = merge (snd c) u"
    using assms(1) by (auto simp: step_def Let_def split: sum.splits)
  show ?thesis
  proof (cases "fst c = N_web_research")
    case True
    then have "u = web_research ext cfg (snd c)"
      using u by simp
    then show ?thesis
      using web_research_effect [of "snd c" ext cfg] assms(2) c' by simp
  next
    case False
    from other_nodes_frame [OF False u] assms(2) c' show ?thesis by simp
  qed
qed

lemma reachable_invariant:
  "reachable W cfg topic k c \<Longrightarrow>
   int (length (sources_gathered (snd c))) = research_loop_count (snd c)"
proof (induction rule: reachable.induct)
  case reachable_start
  show ?case by (simp add: fresh_state_def)
next
  case (reachable_step k c c')
  then show ?case using step_keeps_invariant by blast
qed

text \<open>
  Claim C5. In every state the workflow reaches from a fresh state, the length of
  \<open>sources_gathered\<close> equals \<open>research_loop_count\<close>: both start at zero, every run of
  \<open>web_research\<close> appends exactly one citation block and adds exactly one to the
  counter, and no other node changes either field.
\<close>

theorem sources_gathered_length_invariant:
  "(reachable W cfg topic k c \<longrightarrow>
      int (length (sources_gathered (snd c))) = research_loop_count (snd c)) \<and>
   research_loop_count (fresh_state topic) = 0 \<and> sources_gathered (fresh_state topic) = [] \<and>
   (\<exists>block. sources_gathered (merge s (web_research ext cfg s)) = sources_gathered s @ [block]) \<and>
   research_loop_count (merge s (web_research ext cfg s)) = research_loop_count s + 1 \<and>
   (n \<noteq> N_web_research \<and> run_node ext cfg n s = Inr u \<longrightarrow>
      sources_gathered (merge s u) = sources_gathered s \<and>
      research_loop_count (merge s u) = research_loop_count s)"
  using reachable_invariant [of W cfg topic k c] web_research_effect [of s ext cfg]
    other_nodes_frame [of n ext cfg s u]
  by (simp add: fresh_state_def)

lemma example_reachable:
  "reachable (\<lambda>k. stub_externals (ustr ''not json'') stub_loads) default_configuration
     (ustr ''Quantum Computing'') (Suc (Suc 0)) (N_summarize_sources, example_state)"
proof -
  let ?W = "\<lambda>k::nat. stub_externals (ustr ''not json'') stub_loads"
  let ?t = "ustr ''Quantum Computing''"
  define s0 where "s0 = (fresh_state ?t)\<lparr>search_query := PStr (ustr ''not json'')\<rparr>"
  have r0: "reachable ?W default_configuration ?t 0 (N_generate_query, fresh_state ?t)"
    by (rule reachable_start)
  have "step (?W 0) default_configuration (N_generate_query, fresh_state ?t)
      = Inr (N_web_research, s0)"
    by (simp add: step_def generate_query_def generate_query_content_def
        generate_query_fallback_def stub_externals_def stub_loads_def default_configuration_def
        ustr_def Let_def merge_def no_update_def fresh_state_def s0_def)
  from reachable_step [OF r0 this]
  have r1: "reachable ?W default_configuration ?t (Suc 0) (N_web_research, s0)" .
  have "step (?W (Suc 0)) default_configuration (N_web_research, s0)
      = Inr (N_summarize_sources, example_state)"
    by (simp add: step_def web_research_def stub_externals_def default_configuration_def
        Let_def merge_def no_update_def fresh_state_def s0_def example_state_def)
  from reachable_step [OF r1 this] show ?thesis .
qed

theorem sources_gathered_length_invariant_witness:
  "reachable (\<lambda>k. stub_externals (ustr ''not json'') stub_loads) default_configuration
     (ustr ''Quantum Computing'') (Suc (Suc 0)) (N_summarize_sources, example_state) \<and>
   int (length (sources_gathered example_state)) = research_loop_count example_state \<and>
   research_loop_count example_state = 1 \<and>
   N_finalize_summary \<noteq> N_web_research \<and>
   run_node (stub_externals (ustr ''not json'') stub_loads) default_configuration
     N_finalize_summary example_state = Inr (finalize_summary example_state) \<and>
   sources_gathered (merge example_state (finalize_summary example_state))
     = [ustr ''* A : url1''] \<and>
   research_loop_count (merge example_state (finalize_summary example_state)) = 1"
  using example_reachable
    sources_gathered_length_invariant
      [of "\<lambda>k. stub_externals (ustr ''not json'') stub_loads" default_configuration
        "ustr ''Quantum Computing''" "Suc (Suc 0)" "(N_summarize_sources, example_state)"
        example_state "stub_externals (ustr ''not json'') stub_loads"
        N_finalize_summary "finalize_summary example_state"]
  by (simp add: example_state_def)

section \<open>Properties of the final report\<close>

lemma py_strip_empty_iff: "py_strip line = [] \<longleftrightarrow> blank line"
proof -
  have "dropWhile is_whitespace (rev (dropWhile is_whitespace line)) = []
      \<longleftrightarrow> dropWhile is_whitespace line = []"
  proof
    assume "dropWhile is_whitespace (rev (dropWhile is_whitespace line)) = []"
    then have a: "\<forall>c \<in> set (dropWhile is_whitespace line). is_whitespace c"
      by (simp add: dropWhile_eq_Nil_conv)
    show "dropWhile is_whitespace line = []"
    proof (rule ccontr)
      assume "dropWhile is_whitespace line \<noteq> []"
      then have "\<not> is_whitespace (hd (dropWhile is_whitespace line))"
        by (rule hd_dropWhile)
      moreover have "hd (dropWhile is_whitespace line) \<in> set (dropWhile is_whitespace line)"
        using \<open>dropWhile is_whitespace line \<noteq> []\<close> by simp
      ultimately show False using a by blast
    qed
  next
    assume "dropWhile is_whitespace line = []"
    then show "dropWhile is_whitespace (rev (dropWhile is_whitespace line)) = []"
      by (simp del: dropWhile_eq_Nil_conv)
  qed
  then have "py_strip line = [] \<longleftrightarrow> dropWhile is_whitespace line = []"
    by (simp only: py_strip_def rev_is_Nil_conv)
  also have "\<dots> \<longleftrightarrow> blank line"
    by (simp only: blank_def dropWhile_eq_Nil_conv)
  finally show ?thesis .
qed

lemma first_seen_filter: "filter Q (first_seen ys) = first_seen (filter Q ys)"
proof (induction ys)
  case Nil
  show ?case by simp
next
  case (Cons y ys)
  show ?case
  proof (cases "Q y")
    case True
    have "filter Q (filter (\<lambda>z. z \<noteq> y) (first_seen ys))
        = filter (\<lambda>z. z \<noteq> y) (filter Q (first_seen ys))"
      by (simp add: conj_commute)
    with True Cons.IH show ?thesis by simp
  next
    case False
    have "filter Q (filter (\<lambda>z. z \<noteq> y) (first_seen ys)) = filter Q (first_seen ys)"
      using False by (auto intro: filter_cong)
    with False Cons.IH show ?thesis by simp
  qed
qed

lemma set_first_seen: "set (first_seen xs) = set xs"
  by (induction xs) auto

lemma distinct_first_seen: "distinct (first_seen xs)"
  by (induction xs) (auto simp: set_first_seen)

lemma finalize_lines_eq:
  "finalize_lines (set u, u) ls =
     (set u \<union> {l \<in> set ls. \<not> blank l},
      u @ first_seen (filter (\<lambda>l. \<not> blank l \<and> l \<notin> set u) ls))"
proof (induction ls arbitrary: u)
  case Nil
  show ?case by simp
next
  case (Cons l ls)
  show ?case
  proof (cases "\<not> blank l \<and> l \<notin> set u")
    case True
    have "finalize_lines (set u, u) (l # ls) = finalize_lines (set (u @ [l]), u @ [l]) ls"
      using True by (simp add: py_strip_empty_iff)
    also have "\<dots> = (set (u @ [l]) \<union> {x \<in> set ls. \<not> blank x},
        (u @ [l]) @ first_seen (filter (\<lambda>x. \<not> blank x \<and> x \<notin> set (u @ [l])) ls))"
      by (rule Cons.IH)
    also have "filter (\<lambda>x. \<not> blank x \<and> x \<notin> set (u @ [l])) ls
        = filter (\<lambda>x. x \<noteq> l) (filter (\<lambda>x. \<not> blank x \<and> x \<notin> set u) ls)"
      by (auto intro: filter_cong)
    finally show ?thesis
      using True by (auto simp: first_seen_filter)
  next
    case False
    have "finalize_lines (set u, u) (l # ls) = finalize_lines (set u, u) ls"
      using False by (auto simp: py_strip_empty_iff)
    with False Cons.IH [of u] show ?thesis by auto
  qed
qed

lemma finalize_lines_append:
  "finalize_lines acc (xs @ ys) = finalize_lines (finalize_lines acc xs) ys"
proof (induction xs arbitrary: acc)
  case Nil
  show ?case by (cases acc) simp
next
  case (Cons x xs)
  obtain seen uniq where acc: "acc = (seen, uniq)" by (cases acc)
  show ?case unfolding acc using Cons.IH by simp
qed

lemma finalize_sources_eq:
  "finalize_sources acc blocks = finalize_lines acc (source_lines blocks)"
proof (induction blocks arbitrary: acc)
  case Nil
  obtain seen uniq where acc: "acc = (seen, uniq)" by (cases acc)
  show ?case unfolding acc by (simp add: source_lines_def)
next
  case (Cons b blocks)
  have "source_lines (b # blocks) = py_split b newline @ source_lines blocks"
    by (simp add: source_lines_def)
  then show ?case
    using Cons.IH by (simp add: finalize_lines_append)
qed

lemma unique_sources_eq:
  "snd (finalize_sources ({}, []) blocks)
     = first_seen (filter (\<lambda>l. \<not> blank l) (source_lines blocks))"
  using finalize_lines_eq [of "[]" "source_lines blocks"]
  by (simp add: finalize_sources_eq)


lemma py_split_acc_nonempty: "py_split_acc sep acc s \<noteq> []"
  by (induction s arbitrary: acc) simp_all

lemma py_split_acc_join:
  "py_join [sep] (py_split_acc sep acc s) = rev acc @ s"
proof (induction s arbitrary: acc)
  case Nil
  show ?case by simp
next
  case (Cons c cs)
  show ?case
  proof (cases "c = sep")
    case True
    obtain l ls where "py_split_acc sep [] cs = l # ls"
      using py_split_acc_nonempty [of sep "[]" cs] by (auto simp: neq_Nil_conv)
    then show ?thesis
      using True Cons.IH [of "[]"] by simp
  next
    case False
    then show ?thesis using Cons.IH [of "c # acc"] by simp
  qed
qed

lemma py_split_join: "py_join [sep] (py_split s sep) = s"
  by (simp add: py_split_def py_split_acc_join)

lemma py_split_acc_no_sep:
  "sep \<notin> set acc \<Longrightarrow> l \<in> set (py_split_acc sep acc s) \<Longrightarrow> sep \<notin> set l"
proof (induction s arbitrary: acc)
  case Nil
  then show ?case by simp
next
  case (Cons c cs)
  show ?case
  proof (cases "c = sep")
    case True
    with Cons.prems have "l = rev acc \<or> l \<in> set (py_split_acc sep [] cs)"
      by simp
    then show ?thesis
      using Cons.prems(1) Cons.IH [of "[]"] by auto
  next
    case False
    with Cons.prems have "l \<in> set (py_split_acc sep (c # acc) cs)"
      by simp
    then show ?thesis
      using False Cons.prems(1) Cons.IH [of "c # acc"] by auto
  qed
qed


lemma example_lines:
  "first_seen (filter (\<lambda>line. py_strip line \<noteq> [])
      (source_lines [ustr ''* A : url1\<newline>* B : url2'', ustr ''* B : url2\<newline>* C : url3'']))
   = [ustr ''* A : url1'', ustr ''* B : url2'', ustr ''* C : url3'']"
  by (simp add: source_lines_def ustr_def py_split_def newline_def py_strip_def
      is_whitespace_def)

text \<open>
  Claim C3. \<open>finalize_summary\<close> splits every citation block into lines, discards the
  lines that are blank after stripping whitespace, deduplicates the rest by exact text in
  first-seen order, joins the survivors with newlines and replaces \<open>running_summary\<close> by
  the summary header, the prior summary, the sources header and the joined lines. For the
  two blocks \<open>* A : url1 / * B : url2\<close> and \<open>* B : url2 / * C : url3\<close> the survivors
  are the three lines A, B, C, each once, in that order.
\<close>

theorem finalize_summary_report:
  assumes "running_summary state = Some summary"
  shows "finalize_summary state =
      no_update\<lparr>upd_running_summary :=
        Some (ustr ''## Summary\<newline>'' @ summary @ ustr ''\<newline>\<newline> ### Sources:\<newline>''
              @ py_join (ustr ''\<newline>'')
                  (first_seen (filter (\<lambda>line. py_strip line \<noteq> [])
                     (source_lines (sources_gathered state)))))\<rparr> \<and>
    distinct (first_seen (filter (\<lambda>line. py_strip line \<noteq> [])
       (source_lines (sources_gathered state)))) \<and>
    set (first_seen (filter (\<lambda>line. py_strip line \<noteq> [])
       (source_lines (sources_gathered state))))
      = {line \<in> set (source_lines (sources_gathered state)). py_strip line \<noteq> []} \<and>
    (sources_gathered state =
       [ustr ''* A : url1\<newline>* B : url2'', ustr ''* B : url2\<newline>* C : url3''] \<longrightarrow>
     first_seen (filter (\<lambda>line. py_strip line \<noteq> [])
       (source_lines (sources_gathered state)))
       = [ustr ''* A : url1'', ustr ''* B : url2'', ustr ''* C : url3''])"
proof -
  have "finalize_summary state =
      no_update\<lparr>upd_running_summary :=
        Some (ustr ''## Summary\<newline>'' @ summary @ ustr ''\<newline>\<newline> ### Sources:\<newline>''
              @ py_join (ustr ''\<newline>'')
                  (first_seen (filter (\<lambda>line. py_strip line \<noteq> [])
                     (source_lines (sources_gathered state)))))\<rparr>"
    using assms unique_sources_eq [of "sources_gathered state"]
    by (simp add: finalize_summary_def Let_def py_strip_empty_iff)
  moreover have "set (first_seen (filter (\<lambda>line. py_strip line \<noteq> [])
       (source_lines (sources_gathered state))))
      = {line \<in> set (source_lines (sources_gathered state)). py_strip line \<noteq> []}"
    by (simp add: set_first_seen)
  ultimately show ?thesis
    using example_lines by (simp add: distinct_first_seen)
qed

theorem finalize_summary_report_witness:
  "running_summary report_example_state = Some (ustr ''Findings'') \<and>
   sources_gathered report_example_state =
     [ustr ''* A : url1\<newline>* B : url2'', ustr ''* B : url2\<newline>* C : url3''] \<and>
   finalize_summary report_example_state =
     no_update\<lparr>upd_running_summary :=
       Some (ustr ''## Summary\<newline>Findings\<newline>\<newline> ### Sources:\<newline>* A : url1\<newline>* B : url2\<newline>* C : url3'')\<rparr>"
proof -
  have r: "running_summary report_example_state = Some (ustr ''Findings'')"
    and g: "sources_gathered report_example_state =
     [ustr ''* A : url1\<newline>* B : url2'', ustr ''* B : url2\<newline>* C : url3'']"
    by (simp_all add: report_example_state_def)
  from finalize_summary_report [OF r]
  have "finalize_summary report_example_state =
      no_update\<lparr>upd_running_summary :=
        Some (ustr ''## Summary\<newline>'' @ ustr ''Findings''
              @ ustr ''\<newline>\<newline> ### Sources:\<newline>''
              @ py_join (ustr ''\<newline>'')
                  [ustr ''* A : url1'', ustr ''* B : url2'', ustr ''* C : url3''])\<rparr>"
    using g by simp
  then have "finalize_summary report_example_state =
     no_update\<lparr>upd_running_summary :=
       Some (ustr ''## Summary\<newline>Findings\<newline>\<newline> ### Sources:\<newline>* A : url1\<newline>* B : url2\<newline>* C : url3'')\<rparr>"
    by (simp add: ustr_def)
  with r g show ?thesis by blast
qed

section \<open>Properties of the query nodes\<close>

text \<open>
  Claim C7. When the reflection reply is not parseable as JSON, or parses to something
  that is not an object, or is an object whose \<open>follow_up_query\<close> is absent, the empty
  string or any other false value, \<open>reflect_on_summary\<close> replaces \<open>search_query\<close> by
  \<open>Tell me more about\<close> followed by the research topic; for the topic
  \<open>Quantum Computing\<close> and an unparseable reply the new query is
  \<open>Tell me more about Quantum Computing\<close>.
\<close>

theorem reflect_on_summary_fallback:
  assumes "json_loads ext (reflect_on_summary_content ext cfg state) = None \<or>
     (\<exists>v. json_loads ext (reflect_on_summary_content ext cfg state) = Some v \<and>
          (\<forall>kvs. v \<noteq> PDict kvs)) \<or>
     (\<exists>kvs. json_loads ext (reflect_on_summary_content ext cfg state) = Some (PDict kvs) \<and>
          (map_of kvs (ustr ''follow_up_query'') = None \<or>
           map_of kvs (ustr ''follow_up_query'') = Some (PStr []) \<or>
           (\<exists>v. map_of kvs (ustr ''follow_up_query'') = Some v \<and> \<not> truthy v)))"
  shows "reflect_on_summary ext cfg state =
     no_update\<lparr>upd_search_query :=
       Some (PStr (ustr ''Tell me more about '' @ research_topic state))\<rparr>"
  using assms
  by (auto simp: reflect_on_summary_def follow_up_fallback_def Let_def
      split: option.splits pyval.splits)

theorem reflect_on_summary_fallback_witness:
  "json_loads (stub_externals (ustr ''not json'') stub_loads)
     (reflect_on_summary_content (stub_externals (ustr ''not json'') stub_loads)
        default_configuration example_state) = None \<and>
   research_topic example_state = ustr ''Quantum Computing'' \<and>
   reflect_on_summary (stub_externals (ustr ''not json'') stub_loads) default_configuration
       example_state
     = no_update\<lparr>upd_search_query :=
         Some (PStr (ustr ''Tell me more about Quantum Computing''))\<rparr>"
proof -
  have l: "json_loads (stub_externals (ustr ''not json'') stub_loads)
     (reflect_on_summary_content (stub_externals (ustr ''not json'') stub_loads)
        default_configuration example_state) = None"
    by (simp add: reflect_on_summary_content_def stub_externals_def stub_loads_def ustr_def)
  have t: "research_topic example_state = ustr ''Quantum Computing''"
    by (simp add: example_state_def)
  have "reflect_on_summary (stub_externals (ustr ''not json'') stub_loads) default_configuration
       example_state
     = no_update\<lparr>upd_search_query :=
         Some (PStr (ustr ''Tell me more about '' @ research_topic example_state))\<rparr>"
    using l by (intro reflect_on_summary_fallback) simp
  then have "reflect_on_summary (stub_externals (ustr ''not json'') stub_loads)
       default_configuration example_state
     = no_update\<lparr>upd_search_query :=
         Some (PStr (ustr ''Tell me more about Quantum Computing''))\<rparr>"
    by (simp add: t ustr_def)
  with l t show ?thesis by blast
qed

lemma generate_query_result:
  "generate_query ext cfg state =
     (case json_loads ext (generate_query_content ext cfg state) of
        None \<Rightarrow> Inr (generate_query_fallback ext cfg (generate_query_content ext cfg state))
      | Some (PDict kvs) \<Rightarrow>
          (case map_of kvs (ustr ''query'') of
             None \<Rightarrow> Inr (generate_query_fallback ext cfg (generate_query_content ext cfg state))
           | Some v \<Rightarrow> Inr (no_update\<lparr>upd_search_query := Some v\<rparr>))
      | Some _ \<Rightarrow> Inl TypeError)"
  by (simp add: generate_query_def Let_def)

text \<open>
  Claim C6 says that \<open>generate_query\<close> does not fail on a reply that is not structured
  JSON or lacks the \<open>query\<close> field. The reply \<open>[]\<close> is valid JSON and has no such field,
  and \<open>generate_query\<close> raises \<open>TypeError\<close> on it: subscripting the parsed list with a
  string is caught by neither \<open>JSONDecodeError\<close> nor \<open>KeyError\<close>.
\<close>

theorem generate_query_non_object_reply:
  "json_loads (stub_externals (ustr ''[]'') stub_loads)
     (generate_query_content (stub_externals (ustr ''[]'') stub_loads) default_configuration
        (fresh_state (ustr ''Quantum Computing''))) = Some (PList []) \<and>
   generate_query (stub_externals (ustr ''[]'') stub_loads) default_configuration
     (fresh_state (ustr ''Quantum Computing'')) = Inl TypeError"
  by (simp add: generate_query_def generate_query_content_def stub_externals_def stub_loads_def
      ustr_def Let_def)

text \<open>
  Claim C8 says that \<open>generate_query\<close> yields a non-empty \<open>search_query\<close> for every
  reply, an empty one included. On the empty reply, with thinking-token stripping
  switched off, the query it yields is the empty string.
\<close>

theorem generate_query_empty_reply:
  "generate_query (stub_externals [] stub_loads)
     (default_configuration\<lparr>strip_thinking_tokens := False\<rparr>)
     (fresh_state (ustr ''Quantum Computing''))
   = Inr (no_update\<lparr>upd_search_query := Some (PStr [])\<rparr>)"
  by (simp add: generate_query_def generate_query_content_def generate_query_fallback_def
      stub_externals_def stub_loads_def default_configuration_def ustr_def Let_def)

text \<open>
  Claim C8, amended. For every reply that \<open>json.loads\<close> rejects or parses to an object,
  \<open>generate_query\<close> yields an update of \<open>search_query\<close> alone: the value under \<open>query\<close>
  when the object has that key, and otherwise the reply text, with thinking tokens
  stripped when that is enabled. The query is empty when that value or text is.
\<close>

theorem generate_query_update:
  assumes "json_loads ext (generate_query_content ext cfg state) = None \<or>
     (\<exists>kvs. json_loads ext (generate_query_content ext cfg state) = Some (PDict kvs))"
  shows "\<exists>q. generate_query ext cfg state = Inr (no_update\<lparr>upd_search_query := Some q\<rparr>) \<and>
     q = (case json_loads ext (generate_query_content ext cfg state) of
            Some (PDict kvs) \<Rightarrow>
              (case map_of kvs (ustr ''query'') of
                 Some v \<Rightarrow> v
               | None \<Rightarrow>
                   PStr (if strip_thinking_tokens cfg
                         then strip_thinking_tokens_fn ext (generate_query_content ext cfg state)
                         else generate_query_content ext cfg state))
          | _ \<Rightarrow>
              PStr (if strip_thinking_tokens cfg
                    then strip_thinking_tokens_fn ext (generate_query_content ext cfg state)
                    else generate_query_content ext cfg state))"
  using assms
  by (auto simp: generate_query_result generate_query_fallback_def split: option.splits)

theorem generate_query_update_witness:
  "json_loads (stub_externals [] stub_loads)
     (generate_query_content (stub_externals [] stub_loads) default_configuration
        (fresh_state (ustr ''Quantum Computing''))) = None \<and>
   (\<exists>q. generate_query (stub_externals [] stub_loads) default_configuration
       (fresh_state (ustr ''Quantum Computing''))
     = Inr (no_update\<lparr>upd_search_query := Some q\<rparr>) \<and> q = PStr [])"
proof -
  have l: "json_loads (stub_externals [] stub_loads)
     (generate_query_content (stub_externals [] stub_loads) default_configuration
        (fresh_state (ustr ''Quantum Computing''))) = None"
    by (simp add: generate_query_content_def stub_externals_def stub_loads_def ustr_def)
  have c: "generate_query_content (stub_externals [] stub_loads) default_configuration
        (fresh_state (ustr ''Quantum Computing'')) = []"
    by (simp add: generate_query_content_def stub_externals_def)
  have s: "strip_thinking_tokens_fn (stub_externals [] stub_loads) [] = []"
    by (simp add: stub_externals_def)
  from generate_query_update
    [of "stub_externals [] stub_loads" default_configuration
      "fresh_state (ustr ''Quantum Computing'')"] l
  have "\<exists>q. generate_query (stub_externals [] stub_loads) default_configuration
       (fresh_state (ustr ''Quantum Computing''))
     = Inr (no_update\<lparr>upd_search_query := Some q\<rparr>) \<and> q = PStr []"
    by (simp add: c s)
  with l show ?thesis by blast
qed

section \<open>Properties of configuration resolution\<close>

lemma py_upper_openai_api_key: "py_upper (ustr ''openai_api_key'') = ustr ''OPENAI_API_KEY''"
  by (simp add: py_upper_def ustr_def)

lemma resolve_values_field:
  assumes "name \<in> set names"
  shows "resolve_values names env config name =
     (case env (py_upper name) of
        Some v \<Rightarrow> Some (PStr v)
      | None \<Rightarrow>
          (case configurable_of config name of
             Some v \<Rightarrow> (if v = PNone then None else Some v)
           | None \<Rightarrow> None))"
proof (cases "name = ustr ''openai_api_key''")
  case True
  then show ?thesis
    using assms
    by (auto simp: resolve_values_def filter_none_def openai_api_key_fallback_def raw_values_def
        py_upper_openai_api_key split: option.splits pyval.splits)
next
  case False
  then show ?thesis
    using assms
    by (auto simp: resolve_values_def filter_none_def openai_api_key_fallback_def raw_values_def
        split: option.splits pyval.splits)
qed

lemma resolve_values_other:
  assumes "name \<notin> set names"
  shows "resolve_values names env config name =
     (if name = ustr ''openai_api_key''
      then map_option PStr (env (ustr ''OPENAI_API_KEY'')) else None)"
  using assms
  by (auto simp: resolve_values_def filter_none_def openai_api_key_fallback_def raw_values_def
      split: option.splits pyval.splits)


lemma Configuration_init_Inr:
  assumes "Configuration_init V values = Inr c"
  shows "field_value (validate_int V) 3 values (ustr ''max_web_research_loops'')
           = Some (max_web_research_loops c)"
    and "field_value (validate_str V) (ustr ''llama-3.3-70b-versatile'') values
           (ustr ''groq_model'') = Some (groq_model c)"
    and "field_value (\<lambda>v. map_option Some (validate_str V v)) None values
           (ustr ''groq_api_key'') = Some (groq_api_key c)"
    and "field_value (validate_float V) (Finite 0 0) values (ustr ''temperature'')
           = Some (temperature c)"
  using assms unfolding Configuration_init_def
  by (auto split: option.splits)










lemma model_field_upper:
  assumes "name \<in> set model_fields"
  shows "py_upper name \<noteq> ustr ''OPENAI_API_KEY''"
  using assms by (auto simp: model_fields_def py_upper_def ustr_def)

lemma resolve_values_ignores_openai_api_key:
  assumes "name \<in> set model_fields"
  shows "resolve_values model_fields (env(ustr ''OPENAI_API_KEY'' := x)) config name
       = resolve_values model_fields env config name"
  using model_field_upper [OF assms]
  by (simp add: resolve_values_field [OF assms])

lemma Configuration_init_cong:
  assumes "\<And>name. name \<in> set model_fields \<Longrightarrow> values name = values' name"
  shows "Configuration_init V values = Configuration_init V values'"
proof -
  have "values (ustr ''max_web_research_loops'') = values' (ustr ''max_web_research_loops'')"
    "values (ustr ''groq_model'') = values' (ustr ''groq_model'')"
    "values (ustr ''groq_api_key'') = values' (ustr ''groq_api_key'')"
    "values (ustr ''search_api'') = values' (ustr ''search_api'')"
    "values (ustr ''fetch_full_page'') = values' (ustr ''fetch_full_page'')"
    "values (ustr ''temperature'') = values' (ustr ''temperature'')"
    "values (ustr ''strip_thinking_tokens'') = values' (ustr ''strip_thinking_tokens'')"
    by (rule assms, simp add: model_fields_def)+
  then show ?thesis
    by (simp add: Configuration_init_def field_value_def)
qed

lemma groq_api_key_field:
  "ustr ''groq_api_key'' \<in> set model_fields"
  "py_upper (ustr ''groq_api_key'') = ustr ''GROQ_API_KEY''"
  "ustr ''openai_api_key'' \<notin> set model_fields"
  by (simp_all add: model_fields_def py_upper_def ustr_def)

text \<open>
  Claim C10. In the Groq-style resolver the fallback to \<open>OPENAI_API_KEY\<close> assigns to the
  key \<open>openai_api_key\<close>, which is not a declared field of the Groq-style class. So the
  resolved configuration does not depend on \<open>OPENAI_API_KEY\<close> at all, and
  \<open>groq_api_key\<close> is what validation makes of the \<open>GROQ_API_KEY\<close> environment variable
  when that is set, else of an explicit \<open>groq_api_key\<close> override, and \<open>None\<close> otherwise.
\<close>

theorem groq_api_key_never_from_openai_api_key:
  "ustr ''openai_api_key'' \<notin> set model_fields \<and>
   resolve_values model_fields env config (ustr ''openai_api_key'')
     = map_option PStr (env (ustr ''OPENAI_API_KEY'')) \<and>
   from_runnable_config V (env(ustr ''OPENAI_API_KEY'' := x)) config
     = from_runnable_config V env config \<and>
   (from_runnable_config V env config = Inr c \<longrightarrow>
      groq_api_key c =
        (case env (ustr ''GROQ_API_KEY'') of
           Some v \<Rightarrow> validate_str V (PStr v)
         | None \<Rightarrow>
             (case configurable_of config (ustr ''groq_api_key'') of
                Some v \<Rightarrow> (if v = PNone then None else validate_str V v)
              | None \<Rightarrow> None)))"
proof -
  have indep: "from_runnable_config V (env(ustr ''OPENAI_API_KEY'' := x)) config
     = from_runnable_config V env config"
    unfolding from_runnable_config_def
    by (rule Configuration_init_cong) (rule resolve_values_ignores_openai_api_key)
  have key: "groq_api_key c =
        (case env (ustr ''GROQ_API_KEY'') of
           Some v \<Rightarrow> validate_str V (PStr v)
         | None \<Rightarrow>
             (case configurable_of config (ustr ''groq_api_key'') of
                Some v \<Rightarrow> (if v = PNone then None else validate_str V v)
              | None \<Rightarrow> None))"
    if "from_runnable_config V env config = Inr c"
    using Configuration_init_Inr(3) [OF that [unfolded from_runnable_config_def]]
    by (cases "groq_api_key c")
      (auto simp: field_value_def resolve_values_field [OF groq_api_key_field(1)]
        groq_api_key_field(2) split: option.splits if_splits)
  show ?thesis
    using indep key groq_api_key_field(3)
      resolve_values_other [OF groq_api_key_field(3), of env config]
    by simp
qed


lemma fallback_example_values:
  "resolve_values model_fields fallback_example_env None name =
     (if name = ustr ''openai_api_key'' then Some (PStr (ustr ''sk-example'')) else None)"
proof (cases "name \<in> set model_fields")
  case True
  then show ?thesis
    unfolding resolve_values_field [OF True]
    by (auto simp: model_fields_def fallback_example_env_def configurable_of_def py_upper_def
        ustr_def)
next
  case False
  then show ?thesis
    unfolding resolve_values_other [OF False]
    by (auto simp: fallback_example_env_def)
qed

lemma fallback_example_resolved:
  "from_runnable_config stub_pydantic fallback_example_env None = Inr default_configuration"
  by (simp add: from_runnable_config_def Configuration_init_def field_value_def
      fallback_example_values default_configuration_def ustr_def)

theorem groq_api_key_never_from_openai_api_key_witness:
  "fallback_example_env (ustr ''OPENAI_API_KEY'') = Some (ustr ''sk-example'') \<and>
   from_runnable_config stub_pydantic fallback_example_env None = Inr default_configuration \<and>
   groq_api_key default_configuration = None"
  using groq_api_key_never_from_openai_api_key
    [of fallback_example_env None stub_pydantic None default_configuration]
    fallback_example_resolved
  by (simp add: fallback_example_env_def configurable_of_def ustr_def)











section \<open>Properties of entry point A\<close>

text \<open>
  Claim C2. \<open>run_research\<close> with \<open>GROQ_API_KEY\<close> unset or empty, or with that key set
  and \<open>TAVILY_API_KEY\<close> unset or empty, raises a \<open>ValueError\<close> whose message starts with
  the name of the missing variable. It does so before the graph is invoked, so no search
  or model call has been made, and the error is the \<open>ValueError\<close> itself, not the
  \<open>Research failed\<close> exception that wraps failures of the graph.
\<close>

theorem run_research_missing_key:
  "(env_missing (load_dotenv environ) (ustr ''GROQ_API_KEY'') \<longrightarrow>
      run_research load_dotenv environ graph_invoke topic =
        ([], Inl (ValueError (ustr ''GROQ_API_KEY''
               @ ustr '' environment variable is not set. Please set your Groq API key.'')))) \<and>
   (\<not> env_missing (load_dotenv environ) (ustr ''GROQ_API_KEY'') \<and>
    env_missing (load_dotenv environ) (ustr ''TAVILY_API_KEY'') \<longrightarrow>
      run_research load_dotenv environ graph_invoke topic =
        ([], Inl (ValueError (ustr ''TAVILY_API_KEY''
               @ ustr '' environment variable is not set. Please set your Tavily API key.'')))) \<and>
   (env_missing (load_dotenv environ) (ustr ''GROQ_API_KEY'') \<or>
    env_missing (load_dotenv environ) (ustr ''TAVILY_API_KEY'') \<longrightarrow>
      fst (run_research load_dotenv environ graph_invoke topic) = [] \<and>
      (\<forall>e. snd (run_research load_dotenv environ graph_invoke topic)
            \<noteq> Inl (Exception (ustr ''Research failed: '' @ e))))"
  by (simp add: run_research_def Let_def ustr_def)

theorem run_research_missing_key_witness:
  "env_missing ((\<lambda>e. e) tavily_only_env) (ustr ''GROQ_API_KEY'') \<and>
   run_research (\<lambda>e. e) tavily_only_env
       (\<lambda>t c. ([ustr ''search''], Returned [(ustr ''running_summary'', PStr (ustr ''report''))]))
       (ustr ''Quantum Computing'')
     = ([], Inl (ValueError (ustr ''GROQ_API_KEY environment variable is not set. Please set your Groq API key.''))) \<and>
   \<not> env_missing ((\<lambda>e. e) groq_only_env) (ustr ''GROQ_API_KEY'') \<and>
   env_missing ((\<lambda>e. e) groq_only_env) (ustr ''TAVILY_API_KEY'') \<and>
   run_research (\<lambda>e. e) groq_only_env
       (\<lambda>t c. ([ustr ''search''], Returned [(ustr ''running_summary'', PStr (ustr ''report''))]))
       (ustr ''Quantum Computing'')
     = ([], Inl (ValueError (ustr ''TAVILY_API_KEY environment variable is not set. Please set your Tavily API key.'')))"
proof -
  have a: "env_missing ((\<lambda>e. e) tavily_only_env) (ustr ''GROQ_API_KEY'')"
    by (simp add: env_missing_def tavily_only_env_def ustr_def)
  have b: "\<not> env_missing ((\<lambda>e. e) groq_only_env) (ustr ''GROQ_API_KEY'')"
    and c: "env_missing ((\<lambda>e. e) groq_only_env) (ustr ''TAVILY_API_KEY'')"
    by (simp_all add: env_missing_def groq_only_env_def ustr_def)
  show ?thesis
    using a b c
      run_research_missing_key
        [of "\<lambda>e. e" tavily_only_env
          "\<lambda>t c. ([ustr ''search''], Returned [(ustr ''running_summary'', PStr (ustr ''report''))])"
          "ustr ''Quantum Computing''"]
      run_research_missing_key
        [of "\<lambda>e. e" groq_only_env
          "\<lambda>t c. ([ustr ''search''], Returned [(ustr ''running_summary'', PStr (ustr ''report''))])"
          "ustr ''Quantum Computing''"]
    by (simp add: ustr_def)
qed

lemma run_research_success_example:
  "run_research (\<lambda>e. e) (groq_only_env ++ tavily_only_env)
       (\<lambda>t c. ([ustr ''search''], Returned [(ustr ''running_summary'', PStr (ustr ''report''))]))
       (ustr ''Quantum Computing'')
     = ([ustr ''search''], Inr (PStr (ustr ''report'')))"
  by (simp add: run_research_def env_missing_def groq_only_env_def tavily_only_env_def
       ustr_def Let_def)

end
